theory Spec2Isabelle
  imports Complex_Main
begin

section \<open>Values, errors and the outside world\<close>

text \<open>
  The handlers of \<^verbatim>\<open>app/routers/auth/twitch.py\<close> pass around what
  \<^verbatim>\<open>response.json()\<close> decoded: untyped Python values. \<open>JNull\<close> is Python's
  \<^verbatim>\<open>None\<close>, \<open>JObj\<close> a \<^verbatim>\<open>dict\<close> in insertion order (looked up with \<open>map_of\<close>),
  \<open>JArr\<close> a \<^verbatim>\<open>list\<close>. A string is its sequence of UTF-8 bytes. A JSON number is
  modelled by an integer: the program only tests numbers for truth and stores them, and
  every fractional number behaves there like some integer.
\<close>

datatype json =
    JNull
  | JBool bool
  | JNum int
  | JStr string
  | JArr "json list"
  | JObj "(string \<times> json) list"

text \<open>Everything a handler can raise. \<open>HTTPException\<close> carries status code and detail;
  the others are Python exceptions no handler catches (the framework answers 500).
  \<open>JSONDecodeError\<close> stands for any failure of \<^verbatim>\<open>response.json()\<close>.\<close>

datatype error =
    HTTPException int string
  | AttributeError
  | TypeError
  | KeyError json
  | IndexError
  | JSONDecodeError

text \<open>Python's truth value of a decoded value (\<^verbatim>\<open>if x\<close>, \<^verbatim>\<open>not x\<close>, \<^verbatim>\<open>x and y\<close>).\<close>

fun truthy :: "json \<Rightarrow> bool" where
  "truthy JNull = False"
| "truthy (JBool b) = b"
| "truthy (JNum n) = (n \<noteq> 0)"
| "truthy (JStr s) = (s \<noteq> [])"
| "truthy (JArr xs) = (xs \<noteq> [])"
| "truthy (JObj kvs) = (kvs \<noteq> [])"

text \<open>\<^verbatim>\<open>k in s\<close> for two strings: \<open>k\<close> occurs in \<open>s\<close> as a contiguous piece.\<close>

fun str_contains :: "string \<Rightarrow> string \<Rightarrow> bool" where
  "str_contains [] k = (k = [])"
| "str_contains (c # s) k = (take (length k) (c # s) = k \<or> str_contains s k)"

text \<open>\<^verbatim>\<open>k in x\<close> for a string \<open>k\<close>: key of a dict, element of a list, piece of a string;
  \<^verbatim>\<open>None\<close>, booleans and numbers are not iterable.\<close>

fun py_in :: "string \<Rightarrow> json \<Rightarrow> error + bool" where
  "py_in k (JObj kvs) = Inr (map_of kvs k \<noteq> None)"
| "py_in k (JArr xs) = Inr (JStr k \<in> set xs)"
| "py_in k (JStr s) = Inr (str_contains s k)"
| "py_in k _ = Inl TypeError"

text \<open>\<^verbatim>\<open>x[k]\<close> for a string \<open>k\<close>: only a dict accepts it.\<close>

fun getitem :: "json \<Rightarrow> string \<Rightarrow> error + json" where
  "getitem (JObj kvs) k = (case map_of kvs k of None \<Rightarrow> Inl (KeyError (JStr k)) | Some v \<Rightarrow> Inr v)"
| "getitem _ k = Inl TypeError"

text \<open>\<^verbatim>\<open>x[0]\<close>: first element of a list, first character of a string; a decoded dict has
  string keys only, so \<open>0\<close> is never one of them.\<close>

fun getitem0 :: "json \<Rightarrow> error + json" where
  "getitem0 (JArr []) = Inl IndexError"
| "getitem0 (JArr (x # xs)) = Inr x"
| "getitem0 (JStr []) = Inl IndexError"
| "getitem0 (JStr (c # s)) = Inr (JStr [c])"
| "getitem0 (JObj kvs) = Inl (KeyError (JNum 0))"
| "getitem0 _ = Inl TypeError"

text \<open>\<^verbatim>\<open>x.get(k)\<close>: a dict answers with the value or \<^verbatim>\<open>None\<close>; nothing else that
  JSON decodes to has the method.\<close>

fun dict_get :: "json \<Rightarrow> string \<Rightarrow> error + json" where
  "dict_get (JObj kvs) k = Inr (case map_of kvs k of None \<Rightarrow> JNull | Some v \<Rightarrow> v)"
| "dict_get _ k = Inl AttributeError"

text \<open>\<^verbatim>\<open>app.config.settings\<close>: the configuration is not part of the sources and is a
  parameter of every handler.\<close>

record settings =
  TWITCH_CLIENT_ID :: string
  TWITCH_CLIENT_SECRET :: string
  REDIRECT_URI :: string
  FRONTEND_URL :: string

text \<open>The header dictionary of \<^verbatim>\<open>fetch_user_info\<close>. The f-string
  \<^verbatim>\<open>f"Bearer {access_token}"\<close> is kept as the value it interpolates.\<close>

datatype credential = Bearer json

record headers =
  Authorization :: credential
  Client_Id :: string

text \<open>What an upstream call gives back: the status, and the decoded body (\<open>None\<close> when
  \<^verbatim>\<open>response.json()\<close> would raise). The provider is a parameter: it answers a POST
  of form data to \<^verbatim>\<open>https://id.twitch.tv/oauth2/token\<close> and a GET with headers to
  \<^verbatim>\<open>https://api.twitch.tv/helix/users\<close>.\<close>

record http_response =
  status :: int
  body :: "json option"

record provider =
  oauth2_token :: "(string \<times> string) list \<Rightarrow> http_response"
  helix_users :: "headers \<Rightarrow> http_response"

text \<open>Modelled from the spec: the \<^verbatim>\<open>User\<close> table of \<^verbatim>\<open>app.models.users\<close> is not
  part of the sources. A row has the six fields the callback fills (the spec's section 3;
  the internal \<^verbatim>\<open>id\<close> is assigned by the database and never read here), each holding
  the Python value it was given; the table is the list of its rows in insertion order.\<close>

record user =
  username :: json
  avatar_url :: json
  twitch_id :: json
  twitch_display_name :: json
  twitch_access_token :: json
  twitch_refresh_token :: json

text \<open>Every effect of a handler on the outside is logged in order.\<close>

datatype event =
    POST_token "(string \<times> string) list"
  | GET_users headers
  | DB_select json
  | DB_insert user

record world =
  rows :: "user list"
  events :: "event list"

definition emit :: "event \<Rightarrow> world \<Rightarrow> world" where
  "emit e w = w\<lparr>events := events w @ [e]\<rparr>"

section \<open>Database session\<close>

text \<open>\<^verbatim>\<open>session.exec(select(User).where(User.twitch_id == x)).first()\<close>\<close>

definition select_first :: "json \<Rightarrow> world \<Rightarrow> user option \<times> world" where
  "select_first x w = (find (\<lambda>u. twitch_id u = x) (rows w), emit (DB_select x) w)"

text \<open>\<^verbatim>\<open>session.add(u); session.commit(); session.refresh(u)\<close>\<close>

definition add_commit :: "user \<Rightarrow> world \<Rightarrow> world" where
  "add_commit u w = emit (DB_insert u) (w\<lparr>rows := rows w @ [u]\<rparr>)"

section \<open>Upstream calls\<close>

record user_data =
  ud_id :: json
  ud_username :: json
  ud_display_name :: json
  ud_avatar_url :: json

text \<open>The dict literal \<^verbatim>\<open>user_data = {...}\<close> of \<^verbatim>\<open>fetch_user_info\<close>: four
  subscripts of \<^verbatim>\<open>user\<close>, evaluated in the order written.\<close>

definition user_data_of :: "json \<Rightarrow> error + user_data" where
  "user_data_of u =
     (case getitem u ''id'' of
        Inl e \<Rightarrow> Inl e
      | Inr i \<Rightarrow>
          (case getitem u ''login'' of
             Inl e \<Rightarrow> Inl e
           | Inr l \<Rightarrow>
               (case getitem u ''display_name'' of
                  Inl e \<Rightarrow> Inl e
                | Inr n \<Rightarrow>
                    (case getitem u ''profile_image_url'' of
                       Inl e \<Rightarrow> Inl e
                     | Inr a \<Rightarrow>
                         Inr \<lparr>ud_id = i, ud_username = l,
                              ud_display_name = n, ud_avatar_url = a\<rparr>))))"

text \<open>The part of \<^verbatim>\<open>fetch_user_info\<close> after the response was decoded:
  \<^verbatim>\<open>if data and "data" in data and data["data"]\<close>, then the first entry.\<close>

definition user_of_data :: "json \<Rightarrow> error + user_data option" where
  "user_of_data data =
     (if \<not> truthy data then Inr None
      else
        (case py_in ''data'' data of
           Inl e \<Rightarrow> Inl e
         | Inr present \<Rightarrow>
             (if \<not> present then Inr None
              else
                (case getitem data ''data'' of
                   Inl e \<Rightarrow> Inl e
                 | Inr d \<Rightarrow>
                     (if \<not> truthy d then Inr None
                      else
                        (case getitem0 d of
                           Inl e \<Rightarrow> Inl e
                         | Inr u \<Rightarrow>
                             (case user_data_of u of
                                Inl e \<Rightarrow> Inl e
                              | Inr ud \<Rightarrow> Inr (Some ud))))))))"

definition fetch_user_info ::
  "settings \<Rightarrow> provider \<Rightarrow> json \<Rightarrow> world \<Rightarrow> (error + user_data option) \<times> world" where
  "fetch_user_info st env access_token w =
     (let hs = \<lparr>Authorization = Bearer access_token, Client_Id = TWITCH_CLIENT_ID st\<rparr>;
          response = helix_users env hs;
          w' = emit (GET_users hs) w
      in if status response \<noteq> 200
         then (Inl (HTTPException (status response) ''Failed to fetch user info''), w')
         else case body response of
                None \<Rightarrow> (Inl JSONDecodeError, w')
              | Some data \<Rightarrow> (user_of_data data, w'))"

definition fetch_twitch_token ::
  "provider \<Rightarrow> (string \<times> string) list \<Rightarrow> world \<Rightarrow> (error + json) \<times> world" where
  "fetch_twitch_token env data w =
     (let response = oauth2_token env data;
          w' = emit (POST_token data) w
      in if status response \<noteq> 200
         then (Inl (HTTPException (status response) ''Failed to fetch tokens''), w')
         else case body response of
                None \<Rightarrow> (Inl JSONDecodeError, w')
              | Some j \<Rightarrow> (Inr j, w'))"

section \<open>Responses and requests\<close>

text \<open>A \<^verbatim>\<open>RedirectResponse\<close> as the handlers build it: the status code (the class's
  default when the handler passes none is 307), the target, and the cookie headers added
  so far.\<close>

datatype cookie_header = Set_cookie string string | Delete_cookie string

record response =
  status_code :: int
  url :: string
  cookie_headers :: "cookie_header list"

definition RedirectResponse :: "string \<Rightarrow> response" where
  "RedirectResponse u = \<lparr>status_code = 307, url = u, cookie_headers = []\<rparr>"

definition set_cookie :: "string \<Rightarrow> string \<Rightarrow> response \<Rightarrow> response" where
  "set_cookie k v r = r\<lparr>cookie_headers := cookie_headers r @ [Set_cookie k v]\<rparr>"

definition delete_cookie :: "string \<Rightarrow> response \<Rightarrow> response" where
  "delete_cookie k r = r\<lparr>cookie_headers := cookie_headers r @ [Delete_cookie k]\<rparr>"

text \<open>The request as the callback reads it: the decoded query string, a multi-dict whose
  \<^verbatim>\<open>get\<close> answers with the last value of a key, and the cookie dict.\<close>

record request =
  query_params :: "(string \<times> string) list"
  cookies :: "string \<Rightarrow> string option"

definition qp_get :: "(string \<times> string) list \<Rightarrow> string \<Rightarrow> string option" where
  "qp_get qs k = map_of (rev qs) k"

text \<open>\<^verbatim>\<open>not s\<close> for an optional string.\<close>

fun falsy :: "string option \<Rightarrow> bool" where
  "falsy None = True"
| "falsy (Some s) = (s = [])"

section \<open>The callback\<close>

text \<open>The rest of the callback once the profile (or \<^verbatim>\<open>None\<close>) is there: look the
  user up and insert a row when there is none.\<close>

definition store_user :: "user_data option \<Rightarrow> json \<Rightarrow> json \<Rightarrow> world \<Rightarrow> world" where
  "store_user user_info access_token refresh_token w =
     (case user_info of
        None \<Rightarrow> w
      | Some ui \<Rightarrow>
          (case select_first (ud_id ui) w of
             (Some user_db, w') \<Rightarrow> w'
           | (None, w') \<Rightarrow>
               add_commit
                 \<lparr>username = ud_username ui,
                  avatar_url = ud_avatar_url ui,
                  twitch_id = ud_id ui,
                  twitch_display_name = ud_display_name ui,
                  twitch_access_token = access_token,
                  twitch_refresh_token = refresh_token\<rparr> w'))"

text \<open>The form data of the authorization-code grant (the dict \<^verbatim>\<open>data\<close> of the
  callback, in the order of its keys).\<close>

definition authorization_code_data :: "settings \<Rightarrow> string \<Rightarrow> (string \<times> string) list" where
  "authorization_code_data st code =
     [(''client_id'', TWITCH_CLIENT_ID st),
      (''client_secret'', TWITCH_CLIENT_SECRET st),
      (''code'', code),
      (''grant_type'', ''authorization_code''),
      (''redirect_uri'', REDIRECT_URI st)]"

definition callback ::
  "settings \<Rightarrow> provider \<Rightarrow> request \<Rightarrow> world \<Rightarrow> (error + response) \<times> world" where
  "callback st env req w =
     (if query_params req = []
      then (Inl (HTTPException 400 ''No query parameters received''), w)
      else
        (let code = qp_get (query_params req) ''code'';
             state = qp_get (query_params req) ''state'';
             stored_state = cookies req ''twitch_state''
         in if falsy code \<or> falsy state \<or> state \<noteq> stored_state
            then (Inl (HTTPException 400 ''Invalid or missing state''), w)
            else
              (case fetch_twitch_token env (authorization_code_data st (the code)) w of
                 (Inl e, w1) \<Rightarrow> (Inl e, w1)
               | (Inr api_response, w1) \<Rightarrow>
                   (case dict_get api_response ''access_token'' of
                      Inl e \<Rightarrow> (Inl e, w1)
                    | Inr access_token \<Rightarrow>
                        (case dict_get api_response ''refresh_token'' of
                           Inl e \<Rightarrow> (Inl e, w1)
                         | Inr refresh_token \<Rightarrow>
                             (case fetch_user_info st env access_token w1 of
                                (Inl e, w2) \<Rightarrow> (Inl e, w2)
                              | (Inr user_info, w2) \<Rightarrow>
                                  (Inr (delete_cookie ''twitch_state''
                                          (RedirectResponse (FRONTEND_URL st @ ''/configurator''))),
                                   store_user user_info access_token refresh_token w2)))))))"

section \<open>Refresh\<close>

text \<open>The form data of the refresh grant (the dict \<^verbatim>\<open>data\<close> of the handler).\<close>

definition refresh_token_data :: "settings \<Rightarrow> string \<Rightarrow> (string \<times> string) list" where
  "refresh_token_data st tok =
     [(''client_id'', TWITCH_CLIENT_ID st),
      (''client_secret'', TWITCH_CLIENT_SECRET st),
      (''refresh_token'', tok),
      (''grant_type'', ''refresh_token'')]"

definition refresh_token ::
  "settings \<Rightarrow> provider \<Rightarrow> string \<Rightarrow> world \<Rightarrow> (error + json) \<times> world" where
  "refresh_token st env tok w = fetch_twitch_token env (refresh_token_data st tok) w"

section \<open>Login\<close>

text \<open>The generator behind \<^verbatim>\<open>random.random()\<close>: the draws still to come. A call
  takes the first one. The library promises draws in the half-open unit interval
  (\<open>unit_draws\<close>).\<close>

type_synonym rng = "nat \<Rightarrow> real"

definition unit_draws :: "rng \<Rightarrow> bool" where
  "unit_draws g = (\<forall>i. 0 \<le> g i \<and> g i < 1)"

definition random :: "rng \<Rightarrow> real \<times> rng" where
  "random g = (g 0, \<lambda>i. g (Suc i))"

text \<open>\<^verbatim>\<open>random.choices(population, k=k)\<close> without weights:
  \<^verbatim>\<open>[population[floor(random() * n)] for i in repeat(None, k)]\<close>; a \<open>k\<close> below zero
  repeats nothing. Python multiplies floats; the model multiplies in the reals, and for a
  draw in the unit interval both give an index below the 62 characters of the alphabet
  used here.\<close>

fun choices_loop :: "'a list \<Rightarrow> nat \<Rightarrow> rng \<Rightarrow> 'a list \<times> rng" where
  "choices_loop population 0 g = ([], g)"
| "choices_loop population (Suc k) g =
     (let (r, g1) = random g;
          x = population ! nat \<lfloor>r * real (length population)\<rfloor>;
          (xs, g2) = choices_loop population k g1
      in (x # xs, g2))"

definition choices :: "'a list \<Rightarrow> int \<Rightarrow> rng \<Rightarrow> 'a list \<times> rng" where
  "choices population k g = choices_loop population (nat k) g"

definition ascii_letters :: string where
  "ascii_letters = ''abcdefghijklmnopqrstuvwxyzABCDEFGHIJKLMNOPQRSTUVWXYZ''"

definition digits :: string where
  "digits = ''0123456789''"

definition generate_random_string :: "int \<Rightarrow> rng \<Rightarrow> string \<times> rng" where
  "generate_random_string len g = choices (ascii_letters @ digits) len g"

text \<open>\<^verbatim>\<open>urllib.parse.urlencode\<close> of a dict of strings: every key and value goes through
  \<^verbatim>\<open>quote_plus\<close>, which keeps the always-safe characters, writes a space as a plus
  sign and every other byte as a percent sign with two upper-case hex digits.\<close>

definition always_safe :: string where
  "always_safe = ''ABCDEFGHIJKLMNOPQRSTUVWXYZabcdefghijklmnopqrstuvwxyz0123456789_.-~''"

definition hex_digit :: "nat \<Rightarrow> char" where
  "hex_digit n = ''0123456789ABCDEF'' ! n"

definition quote_plus_char :: "char \<Rightarrow> string" where
  "quote_plus_char c =
     (if c \<in> set always_safe then [c]
      else if c = CHR '' '' then ''+''
      else [CHR ''%'', hex_digit (of_char c div 16), hex_digit (of_char c mod 16)])"

definition quote_plus :: "string \<Rightarrow> string" where
  "quote_plus s = concat (map quote_plus_char s)"

text \<open>\<^verbatim>\<open>sep.join(parts)\<close>\<close>

fun join :: "string \<Rightarrow> string list \<Rightarrow> string" where
  "join sep [] = []"
| "join sep [p] = p"
| "join sep (p # q # ps) = p @ sep @ join sep (q # ps)"

definition urlencode :: "(string \<times> string) list \<Rightarrow> string" where
  "urlencode query = join ''&'' (map (\<lambda>(k, v). quote_plus k @ ''='' @ quote_plus v) query)"

definition twitch_login :: "settings \<Rightarrow> rng \<Rightarrow> response \<times> rng" where
  "twitch_login st g =
     (let (state, g') = generate_random_string 16 g;
          query = [(''response_type'', ''code''),
                   (''client_id'', TWITCH_CLIENT_ID st),
                   (''redirect_uri'', REDIRECT_URI st),
                   (''state'', state)];
          response = RedirectResponse (''https://id.twitch.tv/oauth2/authorize?'' @ urlencode query)
      in (set_cookie ''twitch_state'' state response, g'))"

section \<open>The router\<close>

text \<open>The three routes of the router, each with what its handler takes from the request,
  and a run of the server over requests that arrive one after the other.\<close>

datatype route = GET_login | GET_callback request | POST_refresh string

datatype reply = Redirect response | Json json | Raised error

fun dispatch :: "settings \<Rightarrow> provider \<Rightarrow> route \<Rightarrow> world \<times> rng \<Rightarrow> reply \<times> world \<times> rng" where
  "dispatch st env GET_login (w, g) =
     (case twitch_login st g of (r, g') \<Rightarrow> (Redirect r, w, g'))"
| "dispatch st env (GET_callback req) (w, g) =
     (case callback st env req w of
        (Inl e, w') \<Rightarrow> (Raised e, w', g)
      | (Inr r, w') \<Rightarrow> (Redirect r, w', g))"
| "dispatch st env (POST_refresh tok) (w, g) =
     (case refresh_token st env tok w of
        (Inl e, w') \<Rightarrow> (Raised e, w', g)
      | (Inr j, w') \<Rightarrow> (Json j, w', g))"

fun serve :: "settings \<Rightarrow> provider \<Rightarrow> route list \<Rightarrow> world \<times> rng \<Rightarrow> world \<times> rng" where
  "serve st env [] s = s"
| "serve st env (r # rs) s = serve st env rs (snd (dispatch st env r s))"

section \<open>Properties to state the claims with\<close>

text \<open>A callback request gets past both checks at the head of the handler.\<close>

definition passes_validation :: "request \<Rightarrow> bool" where
  "passes_validation req =
     (query_params req \<noteq> []
      \<and> \<not> falsy (qp_get (query_params req) ''code'')
      \<and> \<not> falsy (qp_get (query_params req) ''state'')
      \<and> qp_get (query_params req) ''state'' = cookies req ''twitch_state'')"

text \<open>Both upstream calls of the callback succeed for the code \<open>code\<close>: the token
  endpoint answers 200 with a JSON object, from which the callback reads the tokens
  \<open>atok\<close> and \<open>rtok\<close>, and the user endpoint, asked with \<open>atok\<close>, answers 200 with a body
  from which \<^verbatim>\<open>fetch_user_info\<close> returns \<open>user_info\<close> (a profile or \<^verbatim>\<open>None\<close>).\<close>

definition both_calls_succeed ::
  "settings \<Rightarrow> provider \<Rightarrow> string \<Rightarrow> json \<Rightarrow> json \<Rightarrow> user_data option \<Rightarrow> bool" where
  "both_calls_succeed st env code atok rtok user_info =
     (let r1 = oauth2_token env (authorization_code_data st code)
      in status r1 = 200 \<and>
         (case body r1 of
            None \<Rightarrow> False
          | Some api_response \<Rightarrow>
              dict_get api_response ''access_token'' = Inr atok \<and>
              dict_get api_response ''refresh_token'' = Inr rtok \<and>
              (let r2 = helix_users env
                          \<lparr>Authorization = Bearer atok, Client_Id = TWITCH_CLIENT_ID st\<rparr>
               in status r2 = 200 \<and>
                  (case body r2 of
                     None \<Rightarrow> False
                   | Some data \<Rightarrow> user_of_data data = Inr user_info))))"

text \<open>The invariant of the table: no two rows carry the same \<^verbatim>\<open>twitch_id\<close>.\<close>

definition unique_twitch_id :: "user list \<Rightarrow> bool" where
  "unique_twitch_id us = distinct (map twitch_id us)"

text \<open>The effects that are statements sent to the database.\<close>

definition is_db_event :: "event \<Rightarrow> bool" where
  "is_db_event e = (case e of DB_select x \<Rightarrow> True | DB_insert u \<Rightarrow> True | _ \<Rightarrow> False)"

text \<open>How the receiver of a URL reads its query string, as \<^verbatim>\<open>urllib.parse\<close> does
  (\<^verbatim>\<open>urlsplit\<close>, then \<^verbatim>\<open>parse_qsl\<close> keeping blank values, then \<^verbatim>\<open>unquote_plus\<close> on
  every name and value).\<close>

fun split_on :: "char \<Rightarrow> string \<Rightarrow> string list" where
  "split_on sep [] = [[]]"
| "split_on sep (c # s) =
     (if c = sep then [] # split_on sep s
      else (case split_on sep s of [] \<Rightarrow> [[c]] | p # ps \<Rightarrow> (c # p) # ps))"

fun split_once :: "char \<Rightarrow> string \<Rightarrow> string list" where
  "split_once sep [] = [[]]"
| "split_once sep (c # s) =
     (if c = sep then [[], s]
      else (case split_once sep s of [] \<Rightarrow> [[c]] | p # ps \<Rightarrow> (c # p) # ps))"

definition unhex :: "char \<Rightarrow> nat option" where
  "unhex c =
     (let n = of_char c :: nat
      in if 48 \<le> n \<and> n \<le> 57 then Some (n - 48)
         else if 65 \<le> n \<and> n \<le> 70 then Some (n - 55)
         else if 97 \<le> n \<and> n \<le> 102 then Some (n - 87)
         else None)"

fun unquote :: "string \<Rightarrow> string" where
  "unquote (c # a # b # s) =
     (if c = CHR ''%''
      then (case (unhex a, unhex b) of
              (Some h, Some l) \<Rightarrow> char_of (16 * h + l) # unquote s
            | _ \<Rightarrow> c # unquote (a # b # s))
      else c # unquote (a # b # s))"
| "unquote s = s"

definition unquote_plus :: "string \<Rightarrow> string" where
  "unquote_plus s = unquote (map (\<lambda>c. if c = CHR ''+'' then CHR '' '' else c) s)"

definition parse_pair :: "string \<Rightarrow> (string \<times> string) list" where
  "parse_pair name_value =
     (if name_value = [] then []
      else (case split_once CHR ''='' name_value of
              [n, v] \<Rightarrow> [(unquote_plus n, unquote_plus v)]
            | [n] \<Rightarrow> [(unquote_plus n, [])]
            | _ \<Rightarrow> []))"

definition parse_qsl :: "string \<Rightarrow> (string \<times> string) list" where
  "parse_qsl qs = concat (map parse_pair (split_on CHR ''&'' qs))"

text \<open>The query component of a URL: what stands between the first question mark and the
  fragment.\<close>

definition url_query :: "string \<Rightarrow> string" where
  "url_query u =
     (case split_once CHR ''?'' (takeWhile (\<lambda>c. c \<noteq> CHR ''#'') u) of
        [p, q] \<Rightarrow> q
      | _ \<Rightarrow> [])"

section \<open>Sample inputs\<close>

definition ex_settings :: settings where
  "ex_settings =
     \<lparr>TWITCH_CLIENT_ID = ''client-1'', TWITCH_CLIENT_SECRET = ''s3cret'',
      REDIRECT_URI = ''https://app.example/auth/callback'',
      FRONTEND_URL = ''https://app.example''\<rparr>"

definition ex_request :: request where
  "ex_request =
     \<lparr>query_params = [(''code'', ''abc''), (''state'', ''Zx81'')],
      cookies = [''twitch_state'' \<mapsto> ''Zx81'']\<rparr>"

definition ex_forged :: request where
  "ex_forged =
     \<lparr>query_params = [(''code'', ''abc''), (''state'', ''Zx81'')],
      cookies = [''twitch_state'' \<mapsto> ''other'']\<rparr>"

definition ex_tokens :: json where
  "ex_tokens = JObj [(''access_token'', JStr ''at-1''), (''refresh_token'', JStr ''rt-1'')]"

definition ex_profile :: json where
  "ex_profile =
     JObj [(''data'',
            JArr [JObj [(''id'', JStr ''42''), (''login'', JStr ''ann''),
                        (''display_name'', JStr ''Ann''),
                        (''profile_image_url'', JStr ''https://cdn.example/ann.png'')]])]"

definition ex_provider :: provider where
  "ex_provider =
     \<lparr>oauth2_token = (\<lambda>d. \<lparr>status = 200, body = Some ex_tokens\<rparr>),
      helix_users = (\<lambda>h. \<lparr>status = 200, body = Some ex_profile\<rparr>)\<rparr>"

definition ex_ann :: user where
  "ex_ann =
     \<lparr>username = JStr ''ann'', avatar_url = JStr ''https://cdn.example/ann.png'',
      twitch_id = JStr ''42'', twitch_display_name = JStr ''Ann'',
      twitch_access_token = JStr ''at-0'', twitch_refresh_token = JStr ''rt-0''\<rparr>"

definition ex_empty :: world where
  "ex_empty = \<lparr>rows = [], events = []\<rparr>"

definition ex_known :: world where
  "ex_known = \<lparr>rows = [ex_ann], events = []\<rparr>"

text \<open>Providers that refuse (Twitch answers a bad grant with status 400 and a JSON body), that
  know no profile for the token, and that issue a token response without tokens.\<close>

definition ex_denial :: json where
  "ex_denial = JObj [(''status'', JNum 400), (''message'', JStr ''Invalid refresh token'')]"

definition ex_token_denied :: provider where
  "ex_token_denied =
     \<lparr>oauth2_token = (\<lambda>d. \<lparr>status = 400, body = Some ex_denial\<rparr>),
      helix_users = (\<lambda>h. \<lparr>status = 200, body = Some ex_profile\<rparr>)\<rparr>"

definition ex_users_denied :: provider where
  "ex_users_denied =
     \<lparr>oauth2_token = (\<lambda>d. \<lparr>status = 200, body = Some ex_tokens\<rparr>),
      helix_users = (\<lambda>h. \<lparr>status = 401, body = None\<rparr>)\<rparr>"

definition ex_no_profile :: provider where
  "ex_no_profile =
     \<lparr>oauth2_token = (\<lambda>d. \<lparr>status = 200, body = Some ex_tokens\<rparr>),
      helix_users = (\<lambda>h. \<lparr>status = 200, body = Some (JObj [(''data'', JArr [])])\<rparr>)\<rparr>"

definition ex_bare_tokens :: provider where
  "ex_bare_tokens =
     \<lparr>oauth2_token = (\<lambda>d. \<lparr>status = 200, body = Some (JObj [(''expires_in'', JNum 3600)])\<rparr>),
      helix_users = (\<lambda>h. \<lparr>status = 200, body = Some ex_profile\<rparr>)\<rparr>"

definition ex_ann_data :: user_data where
  "ex_ann_data =
     \<lparr>ud_id = JStr ''42'', ud_username = JStr ''ann'', ud_display_name = JStr ''Ann'',
      ud_avatar_url = JStr ''https://cdn.example/ann.png''\<rparr>"

section \<open>How the callback unfolds\<close>

lemma rows_emit: "rows (emit e w) = rows w"
  by (simp add: emit_def)

lemma events_emit: "events (emit e w) = events w @ [e]"
  by (simp add: emit_def)

lemma fetch_twitch_token_world:
  "snd (fetch_twitch_token env d w) = emit (POST_token d) w"
  by (simp add: fetch_twitch_token_def Let_def split: option.splits)

lemma fetch_user_info_world:
  "snd (fetch_user_info st env atok w) =
     emit (GET_users \<lparr>Authorization = Bearer atok, Client_Id = TWITCH_CLIENT_ID st\<rparr>) w"
  by (simp add: fetch_user_info_def Let_def split: option.splits)

lemma callback_invalid:
  assumes "\<not> passes_validation req"
  shows "callback st env req w =
     (Inl (HTTPException 400
        (if query_params req = [] then ''No query parameters received''
         else ''Invalid or missing state'')), w)"
  using assms by (auto simp: callback_def passes_validation_def Let_def)

lemma callback_valid:
  assumes "passes_validation req" and "qp_get (query_params req) ''code'' = Some code"
  shows "callback st env req w =
    (case fetch_twitch_token env (authorization_code_data st code) w of
       (Inl e, w1) \<Rightarrow> (Inl e, w1)
     | (Inr api_response, w1) \<Rightarrow>
         (case dict_get api_response ''access_token'' of
            Inl e \<Rightarrow> (Inl e, w1)
          | Inr atok \<Rightarrow>
              (case dict_get api_response ''refresh_token'' of
                 Inl e \<Rightarrow> (Inl e, w1)
               | Inr rtok \<Rightarrow>
                   (case fetch_user_info st env atok w1 of
                      (Inl e, w2) \<Rightarrow> (Inl e, w2)
                    | (Inr user_info, w2) \<Rightarrow>
                        (Inr (delete_cookie ''twitch_state''
                                (RedirectResponse (FRONTEND_URL st @ ''/configurator''))),
                         store_user user_info atok rtok w2)))))"
  using assms by (auto simp: callback_def passes_validation_def Let_def)

lemma callback_both_calls:
  assumes "passes_validation req" and "qp_get (query_params req) ''code'' = Some code"
    and "both_calls_succeed st env code atok rtok user_info"
  shows "callback st env req w =
     (Inr \<lparr>status_code = 307, url = FRONTEND_URL st @ ''/configurator'',
           cookie_headers = [Delete_cookie ''twitch_state'']\<rparr>,
      store_user user_info atok rtok
        (emit (GET_users \<lparr>Authorization = Bearer atok, Client_Id = TWITCH_CLIENT_ID st\<rparr>)
           (emit (POST_token (authorization_code_data st code)) w)))"
  using assms(3)
  by (auto simp: callback_valid [OF assms(1,2)] both_calls_succeed_def Let_def
      fetch_twitch_token_def fetch_user_info_def delete_cookie_def RedirectResponse_def
      split: option.splits)

section \<open>The invariant of the table\<close>

lemma store_user_unique:
  assumes "unique_twitch_id (rows w)"
  shows "unique_twitch_id (rows (store_user user_info atok rtok w))"
proof (cases user_info)
  case None
  with assms show ?thesis by (simp add: store_user_def)
next
  case (Some ui)
  show ?thesis
  proof (cases "find (\<lambda>u. twitch_id u = ud_id ui) (rows w)")
    case None
    then have "ud_id ui \<notin> twitch_id ` set (rows w)"
      by (auto simp: find_None_iff)
    with assms Some None show ?thesis
      by (simp add: store_user_def select_first_def add_commit_def emit_def unique_twitch_id_def)
  next
    case (Some u0)
    with assms \<open>user_info = Some ui\<close> show ?thesis
      by (simp add: store_user_def select_first_def emit_def)
  qed
qed

lemma callback_unique:
  assumes "unique_twitch_id (rows w)"
  shows "unique_twitch_id (rows (snd (callback st env req w)))"
proof (cases "passes_validation req")
  case False
  with assms show ?thesis by (simp add: callback_invalid)
next
  case True
  then obtain code where c: "qp_get (query_params req) ''code'' = Some code"
    by (cases "qp_get (query_params req) ''code''") (auto simp: passes_validation_def)
  from assms show ?thesis
    by (auto simp: callback_valid [OF True c] fetch_twitch_token_def fetch_user_info_def
        Let_def emit_def split: option.splits sum.splits intro!: store_user_unique)
qed

lemma dispatch_unique:
  assumes "unique_twitch_id (rows (fst s))"
  shows "unique_twitch_id (rows (fst (snd (dispatch st env r s))))"
proof (cases s)
  case (Pair w g)
  with assms have u: "unique_twitch_id (rows w)" by simp
  show ?thesis
  proof (cases r)
    case GET_login
    with Pair u show ?thesis by (simp split: prod.splits)
  next
    case (GET_callback req)
    from callback_unique [OF u, of st env req] Pair GET_callback show ?thesis
      by (auto split: prod.splits sum.splits)
  next
    case (POST_refresh tok)
    have "rows (snd (refresh_token st env tok w)) = rows w"
      by (simp add: refresh_token_def fetch_twitch_token_world rows_emit)
    with Pair POST_refresh u show ?thesis
      by (auto split: prod.splits sum.splits)
  qed
qed

lemma dispatch_world:
  "fst (snd (dispatch st env r s)) =
     (case r of
        GET_login \<Rightarrow> fst s
      | GET_callback req \<Rightarrow> snd (callback st env req (fst s))
      | POST_refresh tok \<Rightarrow> snd (refresh_token st env tok (fst s)))"
  by (cases s; cases r) (simp_all split: prod.splits sum.splits)

lemma serve_world:
  "fst (serve st env rs s) =
     fold (\<lambda>r w. case r of
        GET_login \<Rightarrow> w
      | GET_callback req \<Rightarrow> snd (callback st env req w)
      | POST_refresh tok \<Rightarrow> snd (refresh_token st env tok w)) rs (fst s)"
proof (induction rs arbitrary: s)
  case Nil
  show ?case by simp
next
  case (Cons r rs)
  show ?case by (simp add: Cons.IH dispatch_world split: route.splits)
qed

section \<open>Random strings\<close>

lemma unit_draws_random:
  assumes "unit_draws g"
  shows "0 \<le> fst (random g)" and "fst (random g) < 1" and "unit_draws (snd (random g))"
  using assms by (simp_all add: unit_draws_def random_def)

lemma draw_index_in_range:
  assumes "0 \<le> r" and "r < 1" and "0 < n"
  shows "nat \<lfloor>r * real n\<rfloor> < n"
proof -
  from assms have "r * real n < real n" by simp
  then have "\<lfloor>r * real n\<rfloor> < int n" by (simp add: floor_less_iff)
  moreover from assms have "0 \<le> \<lfloor>r * real n\<rfloor>" by simp
  ultimately show ?thesis by linarith
qed

lemma choices_loop_length: "length (fst (choices_loop p k g)) = k"
  by (induction k arbitrary: g) (simp_all add: Let_def case_prod_beta)

lemma choices_loop_set:
  assumes "p \<noteq> []" and "unit_draws g"
  shows "set (fst (choices_loop p k g)) \<subseteq> set p"
  using assms(2)
proof (induction k arbitrary: g)
  case 0
  show ?case by simp
next
  case (Suc k)
  obtain r g1 where rg: "random g = (r, g1)" by (cases "random g")
  with unit_draws_random [OF Suc.prems] have r: "0 \<le> r" "r < 1" and g1: "unit_draws g1"
    by simp_all
  from assms(1) have "nat \<lfloor>r * real (length p)\<rfloor> < length p"
    by (intro draw_index_in_range r) simp
  then have "p ! nat \<lfloor>r * real (length p)\<rfloor> \<in> set p" by simp
  with Suc.IH [OF g1] rg show ?case
    by (simp add: Let_def case_prod_beta)
qed

lemma generate_random_string_length:
  "length (fst (generate_random_string n g)) = nat n"
  by (simp add: generate_random_string_def choices_def choices_loop_length)

lemma generate_random_string_set:
  "unit_draws g \<Longrightarrow> set (fst (generate_random_string n g)) \<subseteq> set (ascii_letters @ digits)"
  unfolding generate_random_string_def choices_def
  by (rule choices_loop_set) (simp_all add: ascii_letters_def)

lemma twitch_login_state:
  "fst (twitch_login st g) =
     \<lparr>status_code = 307,
      url = ''https://id.twitch.tv/oauth2/authorize?'' @
            urlencode [(''response_type'', ''code''),
                       (''client_id'', TWITCH_CLIENT_ID st),
                       (''redirect_uri'', REDIRECT_URI st),
                       (''state'', fst (generate_random_string 16 g))],
      cookie_headers = [Set_cookie ''twitch_state'' (fst (generate_random_string 16 g))]\<rparr>"
  by (simp add: twitch_login_def Let_def RedirectResponse_def set_cookie_def case_prod_beta)

section \<open>Query strings\<close>

lemma hex_digit_mem:
  "n < 16 \<Longrightarrow> hex_digit n \<in> set ''0123456789ABCDEF''"
proof -
  assume "n < 16"
  then have "n \<in> {0, 1, 2, 3, 4, 5, 6, 7, 8, 9, 10, 11, 12, 13, 14, 15}" by simp arith
  then show ?thesis
    by (auto simp: hex_digit_def)
qed

lemma unhex_hex_digit: "n < 16 \<Longrightarrow> unhex (hex_digit n) = Some n"
proof -
  assume "n < 16"
  then have "n \<in> {0, 1, 2, 3, 4, 5, 6, 7, 8, 9, 10, 11, 12, 13, 14, 15}" by simp arith
  then show ?thesis
    by (auto simp: hex_digit_def unhex_def)
qed

lemma hex_digit_not_plus: "n < 16 \<Longrightarrow> hex_digit n \<noteq> CHR ''+''"
  using hex_digit_mem [of n] by auto

lemma unquote_Cons:
  "c \<noteq> CHR ''%'' \<Longrightarrow> unquote (c # s) = c # unquote s"
proof (cases s)
  case Nil
  then show ?thesis by simp
next
  case (Cons a t)
  assume "c \<noteq> CHR ''%''"
  with Cons show ?thesis by (cases t) simp_all
qed

lemma unquote_quote_plus_char:
  "unquote (map (\<lambda>c. if c = CHR ''+'' then CHR '' '' else c) (quote_plus_char c) @ t) = c # unquote t"
proof -
  have lt: "(of_char c :: nat) div 16 < 16" "(of_char c :: nat) mod 16 < 16"
    using nat_of_char_less_256 [of c] by arith+
  consider (safe) "c \<in> set always_safe" | (space) "c \<notin> set always_safe" "c = CHR '' ''"
    | (other) "c \<notin> set always_safe" "c \<noteq> CHR '' ''" by blast
  then show ?thesis
  proof cases
    case safe
    then have "c \<noteq> CHR ''%''" "c \<noteq> CHR ''+''"
      by (auto simp: always_safe_def)
    with safe show ?thesis by (simp add: quote_plus_char_def unquote_Cons)
  next
    case space
    then show ?thesis by (simp add: quote_plus_char_def unquote_Cons)
  next
    case other
    have "char_of (16 * (of_char c div 16) + of_char c mod 16 :: nat) = c"
      by simp
    with other lt show ?thesis
      by (simp add: quote_plus_char_def hex_digit_not_plus unhex_hex_digit)
  qed
qed

lemma unquote_plus_quote_plus: "unquote_plus (quote_plus s) = s"
proof -
  have "unquote (map (\<lambda>c. if c = CHR ''+'' then CHR '' '' else c) (quote_plus s)) = s"
  proof (induction s)
    case Nil
    show ?case by (simp add: quote_plus_def)
  next
    case (Cons c s)
    have "quote_plus (c # s) = quote_plus_char c @ quote_plus s"
      by (simp add: quote_plus_def)
    with Cons show ?case
      using unquote_quote_plus_char [of c "map (\<lambda>c. if c = CHR ''+'' then CHR '' '' else c) (quote_plus s)"]
      by simp
  qed
  then show ?thesis by (simp add: unquote_plus_def)
qed

lemma quote_plus_char_chars:
  "x \<in> set (quote_plus_char c) \<Longrightarrow>
     x \<in> set always_safe \<or> x = CHR ''+'' \<or> x = CHR ''%'' \<or> x \<in> set ''0123456789ABCDEF''"
proof -
  have lt: "(of_char c :: nat) div 16 < 16" "(of_char c :: nat) mod 16 < 16"
    using nat_of_char_less_256 [of c] by arith+
  assume "x \<in> set (quote_plus_char c)"
  then show ?thesis
    using hex_digit_mem [OF lt(1)] hex_digit_mem [OF lt(2)]
    by (auto simp: quote_plus_char_def split: if_splits)
qed

lemma quote_plus_no_separator:
  assumes "x \<in> set (quote_plus s)"
  shows "x \<noteq> CHR ''&'' \<and> x \<noteq> CHR ''='' \<and> x \<noteq> CHR ''#'' \<and> x \<noteq> CHR ''?''"
proof -
  from assms obtain c where "x \<in> set (quote_plus_char c)"
    by (auto simp: quote_plus_def)
  from quote_plus_char_chars [OF this] show ?thesis
    by (auto simp: always_safe_def)
qed

lemma split_on_none: "sep \<notin> set s \<Longrightarrow> split_on sep s = [s]"
  by (induction s) auto

lemma split_on_first:
  "sep \<notin> set a \<Longrightarrow> split_on sep (a @ sep # b) = a # split_on sep b"
  by (induction a) auto

lemma split_once_none: "sep \<notin> set s \<Longrightarrow> split_once sep s = [s]"
  by (induction s) auto

lemma split_once_first:
  "sep \<notin> set a \<Longrightarrow> split_once sep (a @ sep # b) = [a, b]"
  by (induction a) auto

lemma parse_pair_quoted:
  "parse_pair (quote_plus k @ ''='' @ quote_plus v) = [(k, v)]"
proof -
  have "CHR ''='' \<notin> set (quote_plus k)"
    using quote_plus_no_separator [of "CHR ''=''" k] by blast
  then have "split_once CHR ''='' (quote_plus k @ CHR ''='' # quote_plus v)
      = [quote_plus k, quote_plus v]"
    by (rule split_once_first)
  then show ?thesis
    by (simp add: parse_pair_def unquote_plus_quote_plus)
qed

lemma pair_no_ampersand:
  "CHR ''&'' \<notin> set (quote_plus k @ ''='' @ quote_plus v)"
  using quote_plus_no_separator [of "CHR ''&''" k] quote_plus_no_separator [of "CHR ''&''" v]
  by auto

lemma parse_qsl_urlencode: "parse_qsl (urlencode ps) = ps"
proof (induction ps rule: induct_list012)
  case 1
  show ?case by (simp add: parse_qsl_def urlencode_def parse_pair_def)
next
  case (2 p)
  obtain k v where p: "p = (k, v)" by (cases p)
  show ?case
    using pair_no_ampersand [of k v]
    by (simp add: p parse_qsl_def urlencode_def split_on_none parse_pair_quoted
        del: append.simps append_Cons)
next
  case (3 p q ps)
  obtain k v where p: "p = (k, v)" by (cases p)
  have "urlencode (p # q # ps) = (quote_plus k @ ''='' @ quote_plus v) @ CHR ''&'' # urlencode (q # ps)"
    by (simp add: urlencode_def p)
  then have "split_on CHR ''&'' (urlencode (p # q # ps)) =
      (quote_plus k @ ''='' @ quote_plus v) # split_on CHR ''&'' (urlencode (q # ps))"
    using split_on_first [OF pair_no_ampersand [of k v]] by simp
  with 3 show ?case
    by (simp add: parse_qsl_def parse_pair_quoted p del: append.simps append_Cons)
qed

lemma urlencode_no_fragment: "CHR ''#'' \<notin> set (urlencode ps)"
proof (induction ps rule: induct_list012)
  case 1
  show ?case by (simp add: urlencode_def)
next
  case (2 p)
  obtain k v where p: "p = (k, v)" by (cases p)
  show ?case
    using quote_plus_no_separator [of "CHR ''#''" k] quote_plus_no_separator [of "CHR ''#''" v]
    by (auto simp: urlencode_def p)
next
  case (3 p q ps)
  obtain k v where p: "p = (k, v)" by (cases p)
  have "urlencode (p # q # ps) = (quote_plus k @ ''='' @ quote_plus v) @ CHR ''&'' # urlencode (q # ps)"
    by (simp add: urlencode_def p)
  with 3 show ?case
    using quote_plus_no_separator [of "CHR ''#''" k] quote_plus_no_separator [of "CHR ''#''" v]
    by auto
qed

lemma url_query_authorize:
  "url_query (''https://id.twitch.tv/oauth2/authorize?'' @ urlencode ps) = urlencode ps"
proof -
  have "takeWhile (\<lambda>c. c \<noteq> CHR ''#'') (''https://id.twitch.tv/oauth2/authorize?'' @ urlencode ps)
      = ''https://id.twitch.tv/oauth2/authorize?'' @ urlencode ps"
    using urlencode_no_fragment [of ps] by (intro takeWhile_eq_all_conv [THEN iffD2]) auto
  moreover have "split_once CHR ''?'' (''https://id.twitch.tv/oauth2/authorize'' @ CHR ''?'' # urlencode ps)
      = [''https://id.twitch.tv/oauth2/authorize'', urlencode ps]"
    by (rule split_once_first) simp
  ultimately show ?thesis by (simp add: url_query_def)
qed

section \<open>The sample inputs\<close>

lemma ex_request_valid: "passes_validation ex_request"
  by (simp add: passes_validation_def ex_request_def qp_get_def)

lemma ex_request_code: "qp_get (query_params ex_request) ''code'' = Some ''abc''"
  by (simp add: ex_request_def qp_get_def)

lemma ex_profile_data: "user_of_data ex_profile = Inr (Some ex_ann_data)"
  by (simp add: user_of_data_def user_data_of_def ex_profile_def ex_ann_data_def)

lemma ex_provider_ok:
  "both_calls_succeed ex_settings ex_provider ''abc'' (JStr ''at-1'') (JStr ''rt-1'') (Some ex_ann_data)"
  by (simp add: both_calls_succeed_def ex_provider_def ex_tokens_def ex_profile_data)

lemma ex_no_profile_ok:
  "both_calls_succeed ex_settings ex_no_profile ''abc'' (JStr ''at-1'') (JStr ''rt-1'') None"
  by (simp add: both_calls_succeed_def ex_no_profile_def ex_tokens_def user_of_data_def)

lemma half_draws: "unit_draws (\<lambda>i. 1 / 2)"
  by (simp add: unit_draws_def)

lemma half_string_3: "fst (generate_random_string 3 (\<lambda>i. 1 / 2)) = ''FFF''"
  by (simp add: generate_random_string_def choices_def random_def ascii_letters_def digits_def
      Let_def case_prod_beta eval_nat_numeral)

lemma half_string_16: "fst (generate_random_string 16 (\<lambda>i. 1 / 2)) = ''FFFFFFFFFFFFFFFF''"
  by (simp add: generate_random_string_def choices_def random_def ascii_letters_def digits_def
      Let_def case_prod_beta eval_nat_numeral)

lemma ex_login_url:
  "url (fst (twitch_login ex_settings (\<lambda>i. 1 / 2))) =
     ''https://id.twitch.tv/oauth2/authorize?response_type=code&client_id=client-1&redirect_uri=https%3A%2F%2Fapp.example%2Fauth%2Fcallback&state=FFFFFFFFFFFFFFFF''"
  by (simp add: twitch_login_state half_string_16 ex_settings_def urlencode_def quote_plus_def
      quote_plus_char_def always_safe_def hex_digit_def)

section \<open>The claims\<close>

text \<open>C1. A callback request with an empty query string, without \<^verbatim>\<open>code\<close>, without
  \<^verbatim>\<open>state\<close>, or whose \<^verbatim>\<open>state\<close> differs from the \<^verbatim>\<open>twitch_state\<close> cookie (an absent
  cookie included) fails with status 400, and the world is left as it was: no row is
  written, no upstream call and no database statement is issued.\<close>

theorem callback_rejects_bad_state:
  assumes "query_params req = []
     \<or> qp_get (query_params req) ''code'' = None
     \<or> qp_get (query_params req) ''state'' = None
     \<or> qp_get (query_params req) ''state'' \<noteq> cookies req ''twitch_state''"
  shows "callback st env req w =
     (Inl (HTTPException 400
        (if query_params req = [] then ''No query parameters received''
         else ''Invalid or missing state'')), w)"
proof -
  from assms have "\<not> passes_validation req"
    by (auto simp: passes_validation_def)
  then show ?thesis by (rule callback_invalid)
qed

theorem callback_rejects_bad_state_witness:
  "qp_get (query_params ex_forged) ''state'' \<noteq> cookies ex_forged ''twitch_state''
   \<and> callback ex_settings ex_provider ex_forged ex_known =
       (Inl (HTTPException 400 ''Invalid or missing state''), ex_known)"
proof -
  have h: "qp_get (query_params ex_forged) ''state'' \<noteq> cookies ex_forged ''twitch_state''"
    by (simp add: ex_forged_def qp_get_def)
  have "query_params ex_forged \<noteq> []" by (simp add: ex_forged_def)
  with h callback_rejects_bad_state [of ex_forged ex_settings ex_provider ex_known]
  show ?thesis by simp
qed

text \<open>C2. A callback that passes validation and both upstream calls, with a profile whose
  \<^verbatim>\<open>twitch_id\<close> no row carries, adds exactly one row: its profile fields are those of
  the fetched profile and its tokens those read from the token response. The database
  sees one select and one insert.\<close>

theorem callback_creates_user:
  assumes "passes_validation req"
    and "qp_get (query_params req) ''code'' = Some code"
    and "both_calls_succeed st env code atok rtok (Some ui)"
    and "find (\<lambda>u. twitch_id u = ud_id ui) (rows w) = None"
  shows "rows (snd (callback st env req w)) =
           rows w @ [\<lparr>username = ud_username ui, avatar_url = ud_avatar_url ui,
                      twitch_id = ud_id ui, twitch_display_name = ud_display_name ui,
                      twitch_access_token = atok, twitch_refresh_token = rtok\<rparr>]
       \<and> filter is_db_event (events (snd (callback st env req w))) =
           filter is_db_event (events w) @
             [DB_select (ud_id ui),
              DB_insert \<lparr>username = ud_username ui, avatar_url = ud_avatar_url ui,
                      twitch_id = ud_id ui, twitch_display_name = ud_display_name ui,
                      twitch_access_token = atok, twitch_refresh_token = rtok\<rparr>]"
  using assms(4)
  by (simp add: callback_both_calls [OF assms(1-3)] store_user_def select_first_def
      add_commit_def emit_def is_db_event_def)

theorem callback_creates_user_witness:
  "passes_validation ex_request
   \<and> qp_get (query_params ex_request) ''code'' = Some ''abc''
   \<and> both_calls_succeed ex_settings ex_provider ''abc'' (JStr ''at-1'') (JStr ''rt-1'') (Some ex_ann_data)
   \<and> find (\<lambda>u. twitch_id u = ud_id ex_ann_data) (rows ex_empty) = None
   \<and> rows (snd (callback ex_settings ex_provider ex_request ex_empty)) =
       [\<lparr>username = JStr ''ann'', avatar_url = JStr ''https://cdn.example/ann.png'',
         twitch_id = JStr ''42'', twitch_display_name = JStr ''Ann'',
         twitch_access_token = JStr ''at-1'', twitch_refresh_token = JStr ''rt-1''\<rparr>]"
proof -
  have h: "find (\<lambda>u. twitch_id u = ud_id ex_ann_data) (rows ex_empty) = None"
    by (simp add: ex_empty_def)
  from callback_creates_user [OF ex_request_valid ex_request_code ex_provider_ok h]
  have "rows (snd (callback ex_settings ex_provider ex_request ex_empty)) =
       [\<lparr>username = JStr ''ann'', avatar_url = JStr ''https://cdn.example/ann.png'',
         twitch_id = JStr ''42'', twitch_display_name = JStr ''Ann'',
         twitch_access_token = JStr ''at-1'', twitch_refresh_token = JStr ''rt-1''\<rparr>]"
    by (simp add: ex_ann_data_def ex_empty_def)
  with ex_request_valid ex_request_code ex_provider_ok h show ?thesis by simp
qed

text \<open>C3. A callback that passes validation and both upstream calls, with a profile whose
  \<^verbatim>\<open>twitch_id\<close> some row carries, leaves the table exactly as it was (no new row, no
  field of a row changed, the database sees the select only) and still answers with the
  redirect to the frontend URL.\<close>

theorem callback_keeps_existing_user:
  assumes "passes_validation req"
    and "qp_get (query_params req) ''code'' = Some code"
    and "both_calls_succeed st env code atok rtok (Some ui)"
    and "find (\<lambda>u. twitch_id u = ud_id ui) (rows w) = Some u0"
  shows "rows (snd (callback st env req w)) = rows w
       \<and> filter is_db_event (events (snd (callback st env req w))) =
           filter is_db_event (events w) @ [DB_select (ud_id ui)]
       \<and> fst (callback st env req w) =
           Inr \<lparr>status_code = 307, url = FRONTEND_URL st @ ''/configurator'',
                cookie_headers = [Delete_cookie ''twitch_state'']\<rparr>"
  using assms(4)
  by (simp add: callback_both_calls [OF assms(1-3)] store_user_def select_first_def
      add_commit_def emit_def is_db_event_def)

theorem callback_keeps_existing_user_witness:
  "passes_validation ex_request
   \<and> qp_get (query_params ex_request) ''code'' = Some ''abc''
   \<and> both_calls_succeed ex_settings ex_provider ''abc'' (JStr ''at-1'') (JStr ''rt-1'') (Some ex_ann_data)
   \<and> find (\<lambda>u. twitch_id u = ud_id ex_ann_data) (rows ex_known) = Some ex_ann
   \<and> rows (snd (callback ex_settings ex_provider ex_request ex_known)) = [ex_ann]
   \<and> fst (callback ex_settings ex_provider ex_request ex_known) =
       Inr \<lparr>status_code = 307, url = ''https://app.example/configurator'',
            cookie_headers = [Delete_cookie ''twitch_state'']\<rparr>"
proof -
  have h: "find (\<lambda>u. twitch_id u = ud_id ex_ann_data) (rows ex_known) = Some ex_ann"
    by (simp add: ex_known_def ex_ann_def ex_ann_data_def)
  from callback_keeps_existing_user [OF ex_request_valid ex_request_code ex_provider_ok h]
  have "rows (snd (callback ex_settings ex_provider ex_request ex_known)) = [ex_ann]
    \<and> fst (callback ex_settings ex_provider ex_request ex_known) =
       Inr \<lparr>status_code = 307, url = ''https://app.example/configurator'',
            cookie_headers = [Delete_cookie ''twitch_state'']\<rparr>"
    by (simp add: ex_known_def ex_settings_def)
  with ex_request_valid ex_request_code ex_provider_ok h show ?thesis by simp
qed

text \<open>C4. Once the request has passed validation, a status other than 200 from the token
  endpoint makes the callback fail with that status; and when the token endpoint has
  answered 200 with tokens, a status other than 200 from the user endpoint makes it fail
  with that status. In both cases the only effects are the upstream calls made so far: the
  table is unchanged and no database statement is issued.\<close>

theorem callback_forwards_upstream_status:
  assumes "passes_validation req"
    and "qp_get (query_params req) ''code'' = Some code"
  shows "(status (oauth2_token env (authorization_code_data st code)) \<noteq> 200 \<longrightarrow>
            callback st env req w =
              (Inl (HTTPException (status (oauth2_token env (authorization_code_data st code)))
                      ''Failed to fetch tokens''),
               w\<lparr>events := events w @ [POST_token (authorization_code_data st code)]\<rparr>))
       \<and> (status (oauth2_token env (authorization_code_data st code)) = 200
          \<and> body (oauth2_token env (authorization_code_data st code)) = Some api_response
          \<and> dict_get api_response ''access_token'' = Inr atok
          \<and> dict_get api_response ''refresh_token'' = Inr rtok
          \<and> status (helix_users env
                 \<lparr>Authorization = Bearer atok, Client_Id = TWITCH_CLIENT_ID st\<rparr>) \<noteq> 200 \<longrightarrow>
            callback st env req w =
              (Inl (HTTPException
                      (status (helix_users env
                         \<lparr>Authorization = Bearer atok, Client_Id = TWITCH_CLIENT_ID st\<rparr>))
                      ''Failed to fetch user info''),
               w\<lparr>events := events w @
                   [POST_token (authorization_code_data st code),
                    GET_users \<lparr>Authorization = Bearer atok, Client_Id = TWITCH_CLIENT_ID st\<rparr>]\<rparr>))"
  by (auto simp: callback_valid [OF assms] fetch_twitch_token_def fetch_user_info_def
      Let_def emit_def)

theorem callback_forwards_upstream_status_witness:
  "passes_validation ex_request
   \<and> qp_get (query_params ex_request) ''code'' = Some ''abc''
   \<and> status (oauth2_token ex_token_denied (authorization_code_data ex_settings ''abc'')) = 400
   \<and> callback ex_settings ex_token_denied ex_request ex_known =
        (Inl (HTTPException 400 ''Failed to fetch tokens''),
         \<lparr>rows = [ex_ann], events = [POST_token (authorization_code_data ex_settings ''abc'')]\<rparr>)
   \<and> status (oauth2_token ex_users_denied (authorization_code_data ex_settings ''abc'')) = 200
   \<and> body (oauth2_token ex_users_denied (authorization_code_data ex_settings ''abc'')) = Some ex_tokens
   \<and> dict_get ex_tokens ''access_token'' = Inr (JStr ''at-1'')
   \<and> dict_get ex_tokens ''refresh_token'' = Inr (JStr ''rt-1'')
   \<and> status (helix_users ex_users_denied
         \<lparr>Authorization = Bearer (JStr ''at-1''), Client_Id = TWITCH_CLIENT_ID ex_settings\<rparr>) = 401
   \<and> callback ex_settings ex_users_denied ex_request ex_known =
        (Inl (HTTPException 401 ''Failed to fetch user info''),
         \<lparr>rows = [ex_ann],
          events = [POST_token (authorization_code_data ex_settings ''abc''),
                    GET_users \<lparr>Authorization = Bearer (JStr ''at-1''),
                               Client_Id = TWITCH_CLIENT_ID ex_settings\<rparr>]\<rparr>)"
proof -
  have a: "status (oauth2_token ex_token_denied (authorization_code_data ex_settings ''abc'')) = 400"
    by (simp add: ex_token_denied_def)
  have b: "status (oauth2_token ex_users_denied (authorization_code_data ex_settings ''abc'')) = 200"
     "body (oauth2_token ex_users_denied (authorization_code_data ex_settings ''abc'')) = Some ex_tokens"
     "dict_get ex_tokens ''access_token'' = Inr (JStr ''at-1'')"
     "dict_get ex_tokens ''refresh_token'' = Inr (JStr ''rt-1'')"
     "status (helix_users ex_users_denied
         \<lparr>Authorization = Bearer (JStr ''at-1''), Client_Id = TWITCH_CLIENT_ID ex_settings\<rparr>) = 401"
    by (simp_all add: ex_users_denied_def ex_tokens_def)
  from a callback_forwards_upstream_status [OF ex_request_valid ex_request_code,
      where env = ex_token_denied and st = ex_settings and w = ex_known]
  have c: "callback ex_settings ex_token_denied ex_request ex_known =
        (Inl (HTTPException 400 ''Failed to fetch tokens''),
         \<lparr>rows = [ex_ann], events = [POST_token (authorization_code_data ex_settings ''abc'')]\<rparr>)"
    by (simp add: ex_known_def)
  from b callback_forwards_upstream_status [OF ex_request_valid ex_request_code,
      where env = ex_users_denied and st = ex_settings and api_response = ex_tokens
        and atok = "JStr ''at-1''" and rtok = "JStr ''rt-1''" and w = ex_known]
  have d: "callback ex_settings ex_users_denied ex_request ex_known =
        (Inl (HTTPException 401 ''Failed to fetch user info''),
         \<lparr>rows = [ex_ann],
          events = [POST_token (authorization_code_data ex_settings ''abc''),
                    GET_users \<lparr>Authorization = Bearer (JStr ''at-1''),
                               Client_Id = TWITCH_CLIENT_ID ex_settings\<rparr>]\<rparr>)"
    by (simp add: ex_known_def)
  from ex_request_valid ex_request_code a b c d show ?thesis by simp
qed

text \<open>C5, as stated, fails: login builds its \<^verbatim>\<open>RedirectResponse\<close> without a status
  code, so the response carries the class's default 307 and not 302.\<close>

theorem login_redirect_is_not_302:
  "unit_draws (\<lambda>i. 1 / 2)
   \<and> status_code (fst (twitch_login ex_settings (\<lambda>i. 1 / 2))) = 307
   \<and> status_code (fst (twitch_login ex_settings (\<lambda>i. 1 / 2))) \<noteq> 302"
  by (simp add: twitch_login_state half_draws)

text \<open>C5, amended. Every login answers with a 307 redirect to the Twitch authorization
  URL, and sets one cookie, \<^verbatim>\<open>twitch_state\<close>; the query string of the redirect URL
  decodes to exactly the four parameters the handler encoded, so the \<^verbatim>\<open>state\<close> read
  from the URL is the value of that cookie.\<close>

theorem login_state_matches_cookie:
  assumes "unit_draws g"
  shows "status_code (fst (twitch_login st g)) = 307
       \<and> take 38 (url (fst (twitch_login st g))) = ''https://id.twitch.tv/oauth2/authorize?''
       \<and> (\<exists>s. cookie_headers (fst (twitch_login st g)) = [Set_cookie ''twitch_state'' s]
              \<and> parse_qsl (url_query (url (fst (twitch_login st g)))) =
                  [(''response_type'', ''code''),
                   (''client_id'', TWITCH_CLIENT_ID st),
                   (''redirect_uri'', REDIRECT_URI st),
                   (''state'', s)]
              \<and> qp_get (parse_qsl (url_query (url (fst (twitch_login st g))))) ''state'' = Some s)"
proof -
  let ?s = "fst (generate_random_string 16 g)"
  let ?ps = "[(''response_type'', ''code''), (''client_id'', TWITCH_CLIENT_ID st),
              (''redirect_uri'', REDIRECT_URI st), (''state'', ?s)]"
  have u: "url (fst (twitch_login st g)) = ''https://id.twitch.tv/oauth2/authorize?'' @ urlencode ?ps"
    by (simp add: twitch_login_state)
  have p: "parse_qsl (url_query (url (fst (twitch_login st g)))) = ?ps"
    by (simp only: u url_query_authorize parse_qsl_urlencode)
  have a: "status_code (fst (twitch_login st g)) = 307"
    by (simp add: twitch_login_state)
  have b: "take 38 (url (fst (twitch_login st g))) = ''https://id.twitch.tv/oauth2/authorize?''"
    by (simp add: u)
  have c: "cookie_headers (fst (twitch_login st g)) = [Set_cookie ''twitch_state'' ?s]"
    by (simp add: twitch_login_state)
  have d: "qp_get (parse_qsl (url_query (url (fst (twitch_login st g))))) ''state'' = Some ?s"
    by (simp only: p) (simp add: qp_get_def)
  from a b c p d show ?thesis by blast
qed

theorem login_state_matches_cookie_witness:
  "unit_draws (\<lambda>i. 1 / 2)
   \<and> url (fst (twitch_login ex_settings (\<lambda>i. 1 / 2))) =
     ''https://id.twitch.tv/oauth2/authorize?response_type=code&client_id=client-1&redirect_uri=https%3A%2F%2Fapp.example%2Fauth%2Fcallback&state=FFFFFFFFFFFFFFFF''
   \<and> cookie_headers (fst (twitch_login ex_settings (\<lambda>i. 1 / 2))) =
        [Set_cookie ''twitch_state'' ''FFFFFFFFFFFFFFFF'']
   \<and> qp_get (parse_qsl (url_query (url (fst (twitch_login ex_settings (\<lambda>i. 1 / 2))))))
        ''state'' = Some ''FFFFFFFFFFFFFFFF''"
proof -
  have c: "cookie_headers (fst (twitch_login ex_settings (\<lambda>i. 1 / 2))) =
        [Set_cookie ''twitch_state'' ''FFFFFFFFFFFFFFFF'']"
    by (simp add: twitch_login_state half_string_16)
  from login_state_matches_cookie [OF half_draws, of ex_settings] c
  have "qp_get (parse_qsl (url_query (url (fst (twitch_login ex_settings (\<lambda>i. 1 / 2))))))
        ''state'' = Some ''FFFFFFFFFFFFFFFF''"
    by auto
  with half_draws ex_login_url c show ?thesis by simp
qed

text \<open>C6, as stated, fails: the handler builds its \<^verbatim>\<open>RedirectResponse\<close> without a
  status code, so the sample callback, which passes validation and both upstream calls,
  answers with the class's default 307 and not with 302.\<close>

theorem callback_redirect_is_not_302:
  "passes_validation ex_request
   \<and> qp_get (query_params ex_request) ''code'' = Some ''abc''
   \<and> both_calls_succeed ex_settings ex_provider ''abc'' (JStr ''at-1'') (JStr ''rt-1'') (Some ex_ann_data)
   \<and> \<not> (\<exists>r. fst (callback ex_settings ex_provider ex_request ex_empty) = Inr r
            \<and> status_code r = 302)"
proof -
  have "fst (callback ex_settings ex_provider ex_request ex_empty) =
      Inr \<lparr>status_code = 307, url = FRONTEND_URL ex_settings @ ''/configurator'',
           cookie_headers = [Delete_cookie ''twitch_state'']\<rparr>"
    by (simp add: callback_both_calls [OF ex_request_valid ex_request_code ex_provider_ok])
  then have "\<not> (\<exists>r. fst (callback ex_settings ex_provider ex_request ex_empty) = Inr r
            \<and> status_code r = 302)" by auto
  with ex_request_valid ex_request_code ex_provider_ok show ?thesis by simp
qed

text \<open>C6, amended. Every callback that passes validation and both upstream calls answers
  with a 307 redirect to \<^verbatim>\<open>FRONTEND_URL\<close> followed by \<^verbatim>\<open>/configurator\<close> that deletes
  the \<^verbatim>\<open>twitch_state\<close> cookie, whatever the profile (\<open>user_info\<close> ranges over
  \<^verbatim>\<open>None\<close>, a profile of a new user and a profile of a known one) and the table.\<close>

theorem callback_always_redirects:
  assumes "passes_validation req"
    and "qp_get (query_params req) ''code'' = Some code"
    and "both_calls_succeed st env code atok rtok user_info"
  shows "fst (callback st env req w) =
           Inr \<lparr>status_code = 307, url = FRONTEND_URL st @ ''/configurator'',
                cookie_headers = [Delete_cookie ''twitch_state'']\<rparr>"
  by (simp add: callback_both_calls [OF assms])

theorem callback_always_redirects_witness:
  "passes_validation ex_request
   \<and> qp_get (query_params ex_request) ''code'' = Some ''abc''
   \<and> both_calls_succeed ex_settings ex_no_profile ''abc'' (JStr ''at-1'') (JStr ''rt-1'') None
   \<and> fst (callback ex_settings ex_no_profile ex_request ex_known) =
        Inr \<lparr>status_code = 307, url = ''https://app.example/configurator'',
             cookie_headers = [Delete_cookie ''twitch_state'']\<rparr>"
proof -
  from callback_always_redirects [OF ex_request_valid ex_request_code ex_no_profile_ok, where w = ex_known]
  have "fst (callback ex_settings ex_no_profile ex_request ex_known) =
        Inr \<lparr>status_code = 307, url = ''https://app.example/configurator'',
             cookie_headers = [Delete_cookie ''twitch_state'']\<rparr>"
    by (simp add: ex_settings_def)
  with ex_request_valid ex_request_code ex_no_profile_ok show ?thesis by simp
qed

text \<open>C7. Every refresh issues exactly one POST to the token endpoint, with form data
  that holds \<^verbatim>\<open>grant_type=refresh_token\<close> and the caller's refresh token, and nothing
  else: the table is untouched and no database statement is issued. The provider's JSON
  token response, which is what it sends with status 200, is returned as it was decoded;
  an answer with any other status is the failure path, on which the handler fails with
  the provider's status code.\<close>

theorem refresh_token_effect:
  "map_of (refresh_token_data st tok) ''grant_type'' = Some ''refresh_token''
   \<and> map_of (refresh_token_data st tok) ''refresh_token'' = Some tok
   \<and> snd (refresh_token st env tok w) =
        w\<lparr>events := events w @ [POST_token (refresh_token_data st tok)]\<rparr>
   \<and> (status (oauth2_token env (refresh_token_data st tok)) = 200
        \<and> body (oauth2_token env (refresh_token_data st tok)) = Some j
        \<longrightarrow> fst (refresh_token st env tok w) = Inr j)
   \<and> (status (oauth2_token env (refresh_token_data st tok)) \<noteq> 200
        \<longrightarrow> fst (refresh_token st env tok w) =
             Inl (HTTPException (status (oauth2_token env (refresh_token_data st tok)))
                    ''Failed to fetch tokens''))"
  by (simp add: refresh_token_def refresh_token_data_def fetch_twitch_token_def Let_def emit_def
      split: option.splits)

theorem refresh_token_effect_witness:
  "status (oauth2_token ex_provider (refresh_token_data ex_settings ''rt-0'')) = 200
   \<and> body (oauth2_token ex_provider (refresh_token_data ex_settings ''rt-0'')) = Some ex_tokens
   \<and> refresh_token ex_settings ex_provider ''rt-0'' ex_known =
        (Inr ex_tokens,
         \<lparr>rows = [ex_ann], events = [POST_token (refresh_token_data ex_settings ''rt-0'')]\<rparr>)
   \<and> status (oauth2_token ex_token_denied (refresh_token_data ex_settings ''rt-0'')) = 400
   \<and> refresh_token ex_settings ex_token_denied ''rt-0'' ex_known =
        (Inl (HTTPException 400 ''Failed to fetch tokens''),
         \<lparr>rows = [ex_ann], events = [POST_token (refresh_token_data ex_settings ''rt-0'')]\<rparr>)"
proof -
  have a: "status (oauth2_token ex_provider (refresh_token_data ex_settings ''rt-0'')) = 200"
    "body (oauth2_token ex_provider (refresh_token_data ex_settings ''rt-0'')) = Some ex_tokens"
    by (simp_all add: ex_provider_def)
  have b: "status (oauth2_token ex_token_denied (refresh_token_data ex_settings ''rt-0'')) = 400"
    by (simp add: ex_token_denied_def)
  from a refresh_token_effect [where st = ex_settings and env = ex_provider and tok = "''rt-0''"
      and w = ex_known and j = ex_tokens]
  have c: "refresh_token ex_settings ex_provider ''rt-0'' ex_known =
        (Inr ex_tokens,
         \<lparr>rows = [ex_ann], events = [POST_token (refresh_token_data ex_settings ''rt-0'')]\<rparr>)"
    by (simp add: prod_eq_iff ex_known_def)
  from b refresh_token_effect [where st = ex_settings and env = ex_token_denied and tok = "''rt-0''"
      and w = ex_known and j = ex_tokens]
  have d: "refresh_token ex_settings ex_token_denied ''rt-0'' ex_known =
        (Inl (HTTPException 400 ''Failed to fetch tokens''),
         \<lparr>rows = [ex_ann], events = [POST_token (refresh_token_data ex_settings ''rt-0'')]\<rparr>)"
    by (simp add: prod_eq_iff ex_known_def)
  from a b c d show ?thesis by simp
qed

text \<open>C8. With draws from the unit interval, the generator returns for every requested
  length \<open>n\<close> a string of exactly \<open>n\<close> characters, each from
  \<^verbatim>\<open>ascii_letters + digits\<close>; and the state token that login sets as the
  \<^verbatim>\<open>twitch_state\<close> cookie has exactly 16 characters of that alphabet.\<close>

theorem state_token_shape:
  assumes "unit_draws g"
  shows "length (fst (generate_random_string (int n) g)) = n
       \<and> set (fst (generate_random_string (int n) g)) \<subseteq> set (ascii_letters @ digits)
       \<and> (\<exists>s. cookie_headers (fst (twitch_login st g)) = [Set_cookie ''twitch_state'' s]
              \<and> length s = 16 \<and> set s \<subseteq> set (ascii_letters @ digits))"
proof -
  have a: "length (fst (generate_random_string (int n) g)) = n"
    by (simp add: generate_random_string_length)
  note b = generate_random_string_set [OF assms, of "int n"]
  have c: "\<exists>s. cookie_headers (fst (twitch_login st g)) = [Set_cookie ''twitch_state'' s]
              \<and> length s = 16 \<and> set s \<subseteq> set (ascii_letters @ digits)"
    using generate_random_string_set [OF assms, of 16]
    by (simp add: twitch_login_state generate_random_string_length)
  from a b c show ?thesis by blast
qed

theorem state_token_shape_witness:
  "unit_draws (\<lambda>i. 1 / 2)
   \<and> fst (generate_random_string 3 (\<lambda>i. 1 / 2)) = ''FFF''
   \<and> length (fst (generate_random_string 3 (\<lambda>i. 1 / 2))) = 3
   \<and> cookie_headers (fst (twitch_login ex_settings (\<lambda>i. 1 / 2))) =
        [Set_cookie ''twitch_state'' ''FFFFFFFFFFFFFFFF'']"
proof -
  from state_token_shape [OF half_draws, of 3 ex_settings]
  have "length (fst (generate_random_string 3 (\<lambda>i. 1 / 2))) = 3" by simp
  with half_draws half_string_3 show ?thesis
    by (simp add: twitch_login_state half_string_16)
qed

text \<open>C9. If no two rows of the table carry the same \<^verbatim>\<open>twitch_id\<close>, the same holds
  after any single request to the router (login, callback on every path, refresh) and
  after any sequence of requests served one after the other.\<close>

theorem serve_keeps_twitch_id_unique:
  assumes "unique_twitch_id (rows w)"
  shows "unique_twitch_id (rows (fst (snd (dispatch st env r (w, g)))))
       \<and> unique_twitch_id (rows (fst (serve st env rs (w, g))))"
proof -
  have step: "unique_twitch_id (rows (fst (snd (dispatch st env r (w, g)))))"
    using assms dispatch_unique [of "(w, g)"] by simp
  have "unique_twitch_id (rows (fst s)) \<Longrightarrow> unique_twitch_id (rows (fst (serve st env rs s)))" for s
  proof (induction rs arbitrary: s)
    case Nil
    then show ?case by simp
  next
    case (Cons r rs)
    then show ?case by (simp add: dispatch_unique)
  qed
  from this [of "(w, g)"] assms step show ?thesis by simp
qed

theorem serve_keeps_twitch_id_unique_witness:
  "unique_twitch_id (rows ex_empty)
   \<and> unique_twitch_id (rows (fst (snd (dispatch ex_settings ex_provider
         (GET_callback ex_request) (ex_empty, \<lambda>i. 0)))))
   \<and> unique_twitch_id (rows (fst (serve ex_settings ex_provider
         [GET_login, GET_callback ex_request, POST_refresh ''rt-1'', GET_callback ex_request]
         (ex_empty, \<lambda>i. 0))))
   \<and> length (rows (fst (serve ex_settings ex_provider
         [GET_login, GET_callback ex_request, POST_refresh ''rt-1'', GET_callback ex_request]
         (ex_empty, \<lambda>i. 0)))) = 1"
proof -
  have u: "unique_twitch_id (rows ex_empty)"
    by (simp add: ex_empty_def unique_twitch_id_def)
  have n: "length (rows (fst (serve ex_settings ex_provider
         [GET_login, GET_callback ex_request, POST_refresh ''rt-1'', GET_callback ex_request]
         (ex_empty, \<lambda>i. 0)))) = 1"
    unfolding serve_world
    by (simp add:
        callback_both_calls [OF ex_request_valid ex_request_code ex_provider_ok]
        refresh_token_def fetch_twitch_token_world
        store_user_def select_first_def add_commit_def emit_def ex_empty_def ex_ann_data_def)
  from serve_keeps_twitch_id_unique [OF u, where st = ex_settings and env = ex_provider
      and r = "GET_callback ex_request" and g = "\<lambda>i. 0"
      and rs = "[GET_login, GET_callback ex_request, POST_refresh ''rt-1'', GET_callback ex_request]"]
    u n
  show ?thesis by simp
qed

text \<open>C10. The callback does not look into the 200 answer of the token endpoint beyond
  reading the two keys: when the JSON object lacks \<^verbatim>\<open>access_token\<close> or
  \<^verbatim>\<open>refresh_token\<close>, the value read for a missing key is \<^verbatim>\<open>None\<close>, the two effects
  of the callback that follow are still the POST and the GET of the user endpoint with
  that value as bearer credential, and when a profile comes back for a \<^verbatim>\<open>twitch_id\<close> no
  row carries, the row that is added holds those values as its tokens.\<close>

theorem callback_stores_missing_tokens:
  assumes "passes_validation req"
    and "qp_get (query_params req) ''code'' = Some code"
    and "status (oauth2_token env (authorization_code_data st code)) = 200"
    and "body (oauth2_token env (authorization_code_data st code)) = Some (JObj kvs)"
    and "map_of kvs ''access_token'' = None \<or> map_of kvs ''refresh_token'' = None"
    and "dict_get (JObj kvs) ''access_token'' = Inr atok"
    and "dict_get (JObj kvs) ''refresh_token'' = Inr rtok"
  shows "(map_of kvs ''access_token'' = None \<longrightarrow> atok = JNull)
       \<and> (map_of kvs ''refresh_token'' = None \<longrightarrow> rtok = JNull)
       \<and> take 2 (drop (length (events w)) (events (snd (callback st env req w)))) =
           [POST_token (authorization_code_data st code),
            GET_users \<lparr>Authorization = Bearer atok, Client_Id = TWITCH_CLIENT_ID st\<rparr>]
       \<and> (status (helix_users env
                    \<lparr>Authorization = Bearer atok, Client_Id = TWITCH_CLIENT_ID st\<rparr>) = 200
          \<and> body (helix_users env
                    \<lparr>Authorization = Bearer atok, Client_Id = TWITCH_CLIENT_ID st\<rparr>) = Some data
          \<and> user_of_data data = Inr (Some ui)
          \<and> find (\<lambda>u. twitch_id u = ud_id ui) (rows w) = None
          \<longrightarrow> rows (snd (callback st env req w)) =
                rows w @ [\<lparr>username = ud_username ui, avatar_url = ud_avatar_url ui,
                           twitch_id = ud_id ui, twitch_display_name = ud_display_name ui,
                           twitch_access_token = atok, twitch_refresh_token = rtok\<rparr>])"
proof -
  have a: "map_of kvs ''access_token'' = None \<longrightarrow> atok = JNull"
    using assms(6) by auto
  have b: "map_of kvs ''refresh_token'' = None \<longrightarrow> rtok = JNull"
    using assms(7) by auto
  have c: "take 2 (drop (length (events w)) (events (snd (callback st env req w)))) =
           [POST_token (authorization_code_data st code),
            GET_users \<lparr>Authorization = Bearer atok, Client_Id = TWITCH_CLIENT_ID st\<rparr>]"
    using assms(3,4,6,7)
    by (auto simp: callback_valid [OF assms(1,2)] fetch_twitch_token_def fetch_user_info_def
        Let_def emit_def store_user_def select_first_def add_commit_def
        split: option.splits sum.splits)
  have d: "rows (snd (callback st env req w)) =
                rows w @ [\<lparr>username = ud_username ui, avatar_url = ud_avatar_url ui,
                           twitch_id = ud_id ui, twitch_display_name = ud_display_name ui,
                           twitch_access_token = atok, twitch_refresh_token = rtok\<rparr>]"
    if "status (helix_users env
                    \<lparr>Authorization = Bearer atok, Client_Id = TWITCH_CLIENT_ID st\<rparr>) = 200"
      and "body (helix_users env
                    \<lparr>Authorization = Bearer atok, Client_Id = TWITCH_CLIENT_ID st\<rparr>) = Some data"
      and "user_of_data data = Inr (Some ui)"
      and "find (\<lambda>u. twitch_id u = ud_id ui) (rows w) = None"
  proof -
    have "both_calls_succeed st env code atok rtok (Some ui)"
      using assms(3,4,6,7) that(1-3) by (simp add: both_calls_succeed_def)
    from callback_both_calls [OF assms(1,2) this] that(4) show ?thesis
      by (simp add: store_user_def select_first_def add_commit_def emit_def)
  qed
  from a b c d show ?thesis by blast
qed

theorem callback_stores_missing_tokens_witness:
  "passes_validation ex_request
   \<and> qp_get (query_params ex_request) ''code'' = Some ''abc''
   \<and> status (oauth2_token ex_bare_tokens (authorization_code_data ex_settings ''abc'')) = 200
   \<and> body (oauth2_token ex_bare_tokens (authorization_code_data ex_settings ''abc''))
        = Some (JObj [(''expires_in'', JNum 3600)])
   \<and> map_of [(''expires_in'', JNum 3600)] ''access_token'' = None
   \<and> map_of [(''expires_in'', JNum 3600)] ''refresh_token'' = None
   \<and> events (snd (callback ex_settings ex_bare_tokens ex_request ex_empty)) =
        [POST_token (authorization_code_data ex_settings ''abc''),
         GET_users \<lparr>Authorization = Bearer JNull, Client_Id = ''client-1''\<rparr>,
         DB_select (JStr ''42''),
         DB_insert \<lparr>username = JStr ''ann'', avatar_url = JStr ''https://cdn.example/ann.png'',
           twitch_id = JStr ''42'', twitch_display_name = JStr ''Ann'',
           twitch_access_token = JNull, twitch_refresh_token = JNull\<rparr>]
   \<and> rows (snd (callback ex_settings ex_bare_tokens ex_request ex_empty)) =
        [\<lparr>username = JStr ''ann'', avatar_url = JStr ''https://cdn.example/ann.png'',
          twitch_id = JStr ''42'', twitch_display_name = JStr ''Ann'',
          twitch_access_token = JNull, twitch_refresh_token = JNull\<rparr>]"
proof -
  have h: "status (oauth2_token ex_bare_tokens (authorization_code_data ex_settings ''abc'')) = 200"
    "body (oauth2_token ex_bare_tokens (authorization_code_data ex_settings ''abc''))
        = Some (JObj [(''expires_in'', JNum 3600)])"
    "map_of [(''expires_in'', JNum 3600)] ''access_token'' = None"
    "map_of [(''expires_in'', JNum 3600)] ''refresh_token'' = None"
    "dict_get (JObj [(''expires_in'', JNum 3600)]) ''access_token'' = Inr JNull"
    "dict_get (JObj [(''expires_in'', JNum 3600)]) ''refresh_token'' = Inr JNull"
    by (simp_all add: ex_bare_tokens_def)
  have k: "status (helix_users ex_bare_tokens
              \<lparr>Authorization = Bearer JNull, Client_Id = TWITCH_CLIENT_ID ex_settings\<rparr>) = 200"
    "body (helix_users ex_bare_tokens
              \<lparr>Authorization = Bearer JNull, Client_Id = TWITCH_CLIENT_ID ex_settings\<rparr>) = Some ex_profile"
    "find (\<lambda>u. twitch_id u = ud_id ex_ann_data) (rows ex_empty) = None"
    by (simp_all add: ex_bare_tokens_def ex_empty_def)
  have ok: "both_calls_succeed ex_settings ex_bare_tokens ''abc'' JNull JNull (Some ex_ann_data)"
    by (simp add: both_calls_succeed_def ex_bare_tokens_def ex_profile_data)
  have e: "events (snd (callback ex_settings ex_bare_tokens ex_request ex_empty)) =
        [POST_token (authorization_code_data ex_settings ''abc''),
         GET_users \<lparr>Authorization = Bearer JNull, Client_Id = ''client-1''\<rparr>,
         DB_select (JStr ''42''),
         DB_insert \<lparr>username = JStr ''ann'', avatar_url = JStr ''https://cdn.example/ann.png'',
           twitch_id = JStr ''42'', twitch_display_name = JStr ''Ann'',
           twitch_access_token = JNull, twitch_refresh_token = JNull\<rparr>]"
    unfolding callback_both_calls [OF ex_request_valid ex_request_code ok]
    by (simp add: store_user_def select_first_def add_commit_def emit_def ex_empty_def
        ex_ann_data_def ex_settings_def)
  from callback_stores_missing_tokens [OF ex_request_valid ex_request_code h(1,2) _ h(5,6),
      where w = ex_empty and data = ex_profile and ui = ex_ann_data] h(3) k ex_profile_data
  have r: "rows (snd (callback ex_settings ex_bare_tokens ex_request ex_empty)) =
        [\<lparr>username = JStr ''ann'', avatar_url = JStr ''https://cdn.example/ann.png'',
          twitch_id = JStr ''42'', twitch_display_name = JStr ''Ann'',
          twitch_access_token = JNull, twitch_refresh_token = JNull\<rparr>]"
    by (simp add: ex_ann_data_def ex_empty_def)
  from ex_request_valid ex_request_code h e r show ?thesis by simp
qed

end
